theory Spec2Isabelle
  imports Main
begin

section \<open>Data model of \<^verbatim>\<open>App.tsx\<close>\<close>

text \<open>
  \<^verbatim>\<open>ImageInfo\<close> is the object built by \<^verbatim>\<open>fileToImageInfo\<close>:
  \<^verbatim>\<open>{ base64, mimeType: file.type, name: file.name }\<close>. The field \<^verbatim>\<open>base64\<close> is
  \<^verbatim>\<open>result.split(',')[1]\<close>, an array read that yields \<^verbatim>\<open>undefined\<close> when the
  array has fewer than two elements; \<open>None\<close> stands for \<^verbatim>\<open>undefined\<close>.
\<close>

record ImageInfo =
  base64 :: "string option"
  mimeType :: string
  name :: string

text \<open>The two properties of a browser \<^verbatim>\<open>File\<close> that the component reads.\<close>

record File =
  fileType :: string
  fileName :: string

text \<open>The event object handed to \<^verbatim>\<open>reader.onerror\<close>.\<close>

datatype ProgressEvent = ProgressEvent string

text \<open>
  What the \<^verbatim>\<open>FileReader\<close> does after \<^verbatim>\<open>readAsDataURL(file)\<close>: it fires
  \<^verbatim>\<open>onload\<close> with \<^verbatim>\<open>reader.result\<close> a string, or it fires \<^verbatim>\<open>onerror\<close>.
  The reader belongs to the host, so it is a parameter of the model.
\<close>

datatype read_outcome = OnLoad string | OnError ProgressEvent

text \<open>
  A value caught by \<^verbatim>\<open>catch (e)\<close>: an instance of \<^verbatim>\<open>Error\<close> with its
  \<^verbatim>\<open>message\<close>, or any other thrown value (here with its text, which the handler
  never reads).
\<close>

datatype thrown = ErrorInstance string | OtherValue string

text \<open>
  How the promise of \<^verbatim>\<open>generateVirtualTryOnImage\<close> behaves under \<^verbatim>\<open>await\<close>:
  it is fulfilled with the generated image, rejected with a thrown value, or it stays
  pending for ever. The service is external, so its outcome is a parameter.
\<close>

datatype gen_outcome = Fulfilled string | Rejected thrown | NeverSettles

text \<open>The closure of the interval callback: its variable \<^verbatim>\<open>messageIndex\<close>
  (\<open>None\<close> is \<^verbatim>\<open>NaN\<close>) and the time since the timer was set or last fired.\<close>

record Interval =
  messageIndex :: "nat option"
  waited :: nat

text \<open>
  The state of the component: the six \<^verbatim>\<open>useState\<close> cells, the handle
  \<^verbatim>\<open>interval\<close> of the effect (\<open>None\<close> when no timer is running) and the value of
  the dependency \<^verbatim>\<open>[isLoading]\<close> at the last run of the effect.
\<close>

record App =
  personImage :: "ImageInfo option"
  clothImage :: "ImageInfo option"
  resultImage :: "string option"
  isLoading :: bool
  error :: "string option"
  loadingMessage :: "string option"
  interval :: "Interval option"
  effectDep :: bool

text \<open>
  What a handler does, in the order in which it does it: calls of the state setters, the
  call of the generation service and \<^verbatim>\<open>console.error\<close>.
\<close>

datatype effect =
    SetPersonImage "ImageInfo option"
  | SetClothImage "ImageInfo option"
  | SetResultImage "string option"
  | SetIsLoading bool
  | SetError "string option"
  | SetLoadingMessage "string option"
  | GenerateCall ImageInfo ImageInfo
  | ConsoleError thrown

fun apply_effect :: "App \<Rightarrow> effect \<Rightarrow> App" where
  "apply_effect s (SetPersonImage v) = s\<lparr>personImage := v\<rparr>"
| "apply_effect s (SetClothImage v) = s\<lparr>clothImage := v\<rparr>"
| "apply_effect s (SetResultImage v) = s\<lparr>resultImage := v\<rparr>"
| "apply_effect s (SetIsLoading v) = s\<lparr>isLoading := v\<rparr>"
| "apply_effect s (SetError v) = s\<lparr>error := v\<rparr>"
| "apply_effect s (SetLoadingMessage v) = s\<lparr>loadingMessage := v\<rparr>"
| "apply_effect s (GenerateCall p c) = s"
| "apply_effect s (ConsoleError e) = s"

definition apply_effects :: "effect list \<Rightarrow> App \<Rightarrow> App" where
  "apply_effects effs s = foldl apply_effect s effs"

text \<open>The state before the first effect and after each effect, in order.\<close>

fun states :: "effect list \<Rightarrow> App \<Rightarrow> App list" where
  "states [] s = [s]"
| "states (e # es) s = s # states es (apply_effect s e)"

text \<open>
  The states at the ends of the lists of effects of an \<^verbatim>\<open>async\<close> handler, one list
  for each stretch between two suspension points: the points where the handler gives up
  control and its updates so far are rendered together.
\<close>

fun commits :: "effect list list \<Rightarrow> App \<Rightarrow> App list" where
  "commits [] s = []"
| "commits (b # bs) s = apply_effects b s # commits bs (apply_effects b s)"

fun is_GenerateCall :: "effect \<Rightarrow> bool" where
  "is_GenerateCall (GenerateCall p c) = True"
| "is_GenerateCall _ = False"

section \<open>\<^verbatim>\<open>fileToImageInfo\<close> and the upload handlers\<close>

text \<open>
  \<^verbatim>\<open>String.prototype.split\<close> with a one-character separator: the pieces between
  the separators, \<^verbatim>\<open>[""]\<close> for the empty string.
\<close>

fun js_split :: "char \<Rightarrow> string \<Rightarrow> string list" where
  "js_split sep [] = [[]]"
| "js_split sep (c # cs) =
     (if c = sep then [] # js_split sep cs
      else (case js_split sep cs of [] \<Rightarrow> [[c]] | w # ws \<Rightarrow> (c # w) # ws))"

text \<open>An array read \<^verbatim>\<open>xs[i]\<close>: \<^verbatim>\<open>undefined\<close> out of range or at \<^verbatim>\<open>NaN\<close>.\<close>

definition js_index :: "'a list \<Rightarrow> nat option \<Rightarrow> 'a option" where
  "js_index xs i =
     (case i of None \<Rightarrow> None | Some n \<Rightarrow> if n < length xs then Some (xs ! n) else None)"

text \<open>
  \<^verbatim>\<open>fileToImageInfo\<close>: the promise is resolved in \<^verbatim>\<open>onload\<close> (\<open>Inr\<close>) and
  rejected with the event in \<^verbatim>\<open>onerror\<close> (\<open>Inl\<close>).
\<close>

definition fileToImageInfo :: "(File \<Rightarrow> read_outcome) \<Rightarrow> File \<Rightarrow> ProgressEvent + ImageInfo" where
  "fileToImageInfo readAsDataURL file =
     (case readAsDataURL file of
        OnLoad result \<Rightarrow>
          Inr \<lparr>base64 = js_index (js_split CHR '','' result) (Some 1),
               mimeType = fileType file, name = fileName file\<rparr>
      | OnError ev \<Rightarrow> Inl ev)"

text \<open>
  The upload handlers are \<^verbatim>\<open>async\<close>: they return the setter calls made and how their
  own promise ends, \<open>Inl\<close> when the awaited \<^verbatim>\<open>fileToImageInfo\<close> rejects (nothing
  catches it) and \<open>Inr ()\<close> otherwise.
\<close>

definition handlePersonImageUpload ::
    "(File \<Rightarrow> read_outcome) \<Rightarrow> File option \<Rightarrow> effect list \<times> (ProgressEvent + unit)" where
  "handlePersonImageUpload readAsDataURL file =
     (case file of
        Some f \<Rightarrow>
          (case fileToImageInfo readAsDataURL f of
             Inr info \<Rightarrow> ([SetPersonImage (Some info)], Inr ())
           | Inl ev \<Rightarrow> ([], Inl ev))
      | None \<Rightarrow> ([SetPersonImage None], Inr ()))"

definition handleClothImageUpload ::
    "(File \<Rightarrow> read_outcome) \<Rightarrow> File option \<Rightarrow> effect list \<times> (ProgressEvent + unit)" where
  "handleClothImageUpload readAsDataURL file =
     (case file of
        Some f \<Rightarrow>
          (case fileToImageInfo readAsDataURL f of
             Inr info \<Rightarrow> ([SetClothImage (Some info)], Inr ())
           | Inl ev \<Rightarrow> ([], Inl ev))
      | None \<Rightarrow> ([SetClothImage None], Inr ()))"

section \<open>\<^verbatim>\<open>handleGenerate\<close>\<close>

definition validationMessage :: string where
  "validationMessage = ''Please upload both your photo and a clothing item photo.''"

definition failurePrefix :: string where
  "failurePrefix = ''Failed to generate image. ''"

text \<open>\<^verbatim>\<open>e instanceof Error ? e.message : "An unknown error occurred."\<close>\<close>

fun errorMessage :: "thrown \<Rightarrow> string" where
  "errorMessage (ErrorInstance m) = m"
| "errorMessage (OtherValue v) = ''An unknown error occurred.''"

text \<open>
  \<^verbatim>\<open>handleGenerate\<close>, run in state \<open>s\<close> when the generation service behaves as
  \<open>settle\<close>. The result is the effects of the handler in order, cut at its one
  \<^verbatim>\<open>await\<close>: the first list runs when the handler is called, the second when the
  promise settles (never, when it stays pending). When the guard fails the handler
  returns before the \<^verbatim>\<open>await\<close>.
\<close>

definition handleGenerate :: "App \<Rightarrow> gen_outcome \<Rightarrow> effect list list" where
  "handleGenerate s settle =
     (if personImage s = None \<or> clothImage s = None then
        [[SetError (Some validationMessage)]]
      else
        [SetIsLoading True, SetResultImage None, SetError None,
         GenerateCall (the (personImage s)) (the (clothImage s))]
        # (case settle of
             Fulfilled generatedImage \<Rightarrow>
               [[SetResultImage (Some generatedImage), SetIsLoading False]]
           | Rejected e \<Rightarrow>
               [[ConsoleError e, SetError (Some (failurePrefix @ errorMessage e)),
                 SetIsLoading False]]
           | NeverSettles \<Rightarrow> []))"

section \<open>The effect on \<^verbatim>\<open>[isLoading]\<close> and its timer\<close>

text \<open>\<^verbatim>\<open>a % b\<close> on numbers that are \<^verbatim>\<open>NaN\<close> or natural: \<^verbatim>\<open>NaN\<close> when \<open>b\<close> is 0.\<close>

definition js_mod :: "nat option \<Rightarrow> nat \<Rightarrow> nat option" where
  "js_mod a b = (case a of None \<Rightarrow> None | Some n \<Rightarrow> if b = 0 then None else Some (n mod b))"

definition js_succ :: "nat option \<Rightarrow> nat option" where
  "js_succ a = map_option Suc a"

text \<open>The initial state of the component, for the imported constant \<^verbatim>\<open>LOADING_MESSAGES\<close>.\<close>

definition initial :: "string list \<Rightarrow> App" where
  "initial LOADING_MESSAGES =
     \<lparr>personImage = None, clothImage = None, resultImage = None, isLoading = False,
      error = None, loadingMessage = js_index LOADING_MESSAGES (Some 0),
      interval = None, effectDep = False\<rparr>"

text \<open>The body of the effect: it sets a timer when \<^verbatim>\<open>isLoading\<close> holds.\<close>

definition effect_body :: "App \<Rightarrow> App" where
  "effect_body s =
     (if isLoading s then s\<lparr>interval := Some \<lparr>messageIndex = Some 0, waited = 0\<rparr>\<rparr> else s)"

text \<open>The cleanup of the effect: \<^verbatim>\<open>clearInterval(interval)\<close>.\<close>

definition effect_cleanup :: "App \<Rightarrow> App" where
  "effect_cleanup s = s\<lparr>interval := None\<rparr>"

text \<open>
  React runs the effect again (cleanup first) when its dependency \<^verbatim>\<open>isLoading\<close>
  differs from the value at its last run. It does so some time after the update is
  committed, and at the latest before it renders the next update.
\<close>

definition flush_effects :: "App \<Rightarrow> App" where
  "flush_effects s =
     (if isLoading s \<noteq> effectDep s
      then (effect_body (effect_cleanup s))\<lparr>effectDep := isLoading s\<rparr>
      else s)"

text \<open>
  The callback given to \<^verbatim>\<open>setInterval\<close>: it advances the variable
  \<^verbatim>\<open>messageIndex\<close> of its closure and calls \<^verbatim>\<open>setLoadingMessage\<close>; rendering
  that update runs an effect that is still due. The callback runs only while the timer is
  set.
\<close>

definition interval_callback :: "string list \<Rightarrow> App \<Rightarrow> App" where
  "interval_callback LOADING_MESSAGES s =
     (case interval s of
        None \<Rightarrow> s
      | Some iv \<Rightarrow>
          (let i = js_mod (js_succ (messageIndex iv)) (length LOADING_MESSAGES)
           in flush_effects
                (apply_effect (s\<lparr>interval := Some (iv\<lparr>messageIndex := i\<rparr>)\<rparr>)
                   (SetLoadingMessage (js_index LOADING_MESSAGES i)))))"

fun fire :: "string list \<Rightarrow> nat \<Rightarrow> App \<Rightarrow> App" where
  "fire LOADING_MESSAGES 0 s = s"
| "fire LOADING_MESSAGES (Suc n) s = fire LOADING_MESSAGES n (interval_callback LOADING_MESSAGES s)"

text \<open>
  \<open>d\<close> time units pass with no other event: a timer set with the delay 2500 fires once
  for every 2500 units since it was set or last fired.
\<close>

definition elapse :: "string list \<Rightarrow> nat \<Rightarrow> App \<Rightarrow> App" where
  "elapse LOADING_MESSAGES d s =
     (case interval s of
        None \<Rightarrow> s
      | Some iv \<Rightarrow>
          (let s' = fire LOADING_MESSAGES ((waited iv + d) div 2500) s
           in s'\<lparr>interval :=
                  map_option (waited_update (\<lambda>_. (waited iv + d) mod 2500)) (interval s')\<rparr>))"

text \<open>
  A handler's effects between two suspension points are committed together. The effect
  on \<^verbatim>\<open>[isLoading]\<close> runs \<open>g\<close> time units after the commit; a timer that is still
  set may fire in between.
\<close>

definition dispatch :: "string list \<Rightarrow> nat \<Rightarrow> effect list \<Rightarrow> App \<Rightarrow> App" where
  "dispatch LOADING_MESSAGES g effs s =
     flush_effects (elapse LOADING_MESSAGES g (apply_effects effs s))"

text \<open>
  An \<^verbatim>\<open>async\<close> handler run to its end: each list of effects is committed when
  the handler reaches it, the effect runs \<open>g\<close> time units after each commit, and every
  \<^verbatim>\<open>await\<close> between two lists takes \<open>d\<close> more time units, during which the timer
  may fire.
\<close>

fun run :: "string list \<Rightarrow> nat \<Rightarrow> effect list list \<Rightarrow> nat \<Rightarrow> App \<Rightarrow> App" where
  "run LOADING_MESSAGES g [] d s = s"
| "run LOADING_MESSAGES g [b] d s = dispatch LOADING_MESSAGES g b s"
| "run LOADING_MESSAGES g (b # b' # bs) d s =
     run LOADING_MESSAGES g (b' # bs) d
       (elapse LOADING_MESSAGES d (dispatch LOADING_MESSAGES g b s))"

section \<open>Example values\<close>

definition examplePerson :: ImageInfo where
  "examplePerson = \<lparr>base64 = Some ''QUJD'', mimeType = ''image/png'', name = ''me.png''\<rparr>"

definition exampleCloth :: ImageInfo where
  "exampleCloth = \<lparr>base64 = Some ''REVG'', mimeType = ''image/jpeg'', name = ''shirt.jpg''\<rparr>"

definition exampleMessages :: "string list" where
  "exampleMessages = [''m0'', ''m1'', ''m2'']"

text \<open>The component after both uploads, before any request.\<close>

definition ready :: App where
  "ready = (initial exampleMessages)\<lparr>personImage := Some examplePerson,
                                       clothImage := Some exampleCloth\<rparr>"

text \<open>The same with a result and an error left by earlier requests.\<close>

definition staleReady :: App where
  "staleReady = ready\<lparr>resultImage := Some ''data:image/png;base64,OLD'',
                      error := Some ''Failed to generate image. quota exceeded''\<rparr>"

text \<open>The component with a result of an earlier request and the person slot cleared.\<close>

definition afterResult :: App where
  "afterResult = (initial exampleMessages)\<lparr>clothImage := Some exampleCloth,
                    resultImage := Some ''data:image/png;base64,XYZ''\<rparr>"

text \<open>
  The component after a first request from \<open>ready\<close> whose generation call was fulfilled
  2500 time units after the call, the effect running at once after each commit.
\<close>

definition afterFirstCycle :: App where
  "afterFirstCycle =
     run exampleMessages 0 (handleGenerate ready (Fulfilled ''data:image/png;base64,XYZ'')) 2500
       ready"

text \<open>
  The component at the moment a request from \<open>ready\<close> has set \<^verbatim>\<open>isLoading\<close> to false:
  the call was fulfilled 2499 time units after the timer was set, and the cleanup of the
  effect has not run yet.
\<close>

definition settledBeforeCleanup :: App where
  "settledBeforeCleanup =
     apply_effects (handleGenerate ready (Fulfilled ''data:image/png;base64,XYZ'') ! 1)
       (elapse exampleMessages 2499
          (run exampleMessages 1 (handleGenerate ready NeverSettles) 0 ready))"

definition exampleFile :: File where
  "exampleFile = \<lparr>fileType = ''image/png'', fileName = ''me.png''\<rparr>"

text \<open>A reader that loads every file as the same data URL, and one that always fails.\<close>

definition loadingReader :: "File \<Rightarrow> read_outcome" where
  "loadingReader f = OnLoad ''data:image/png;base64,QUJD''"

definition failingReader :: "File \<Rightarrow> read_outcome" where
  "failingReader f = OnError (ProgressEvent ''NotReadableError'')"

section \<open>Auxiliary facts\<close>

lemma js_split_no_sep: "sep \<notin> set xs \<Longrightarrow> js_split sep xs = [xs]"
  by (induction xs) auto

lemma js_split_header:
  "sep \<notin> set hdr \<Longrightarrow> js_split sep (hdr @ sep # rest) = hdr # js_split sep rest"
  by (induction hdr) auto

lemma js_split_pieces: "w \<in> set (js_split sep xs) \<Longrightarrow> sep \<notin> set w"
  by (induction xs arbitrary: w) (auto split: list.splits if_splits)

lemma js_index_mem: "js_index xs i = Some x \<Longrightarrow> x \<in> set xs"
  by (auto simp: js_index_def split: option.splits if_splits)

lemma js_index_second: "js_index [x, y] (Some 1) = Some y"
  by (simp add: js_index_def)

text \<open>A result read with no comma in it leaves \<^verbatim>\<open>base64\<close> undefined.\<close>

lemma fileToImageInfo_no_comma:
  assumes "readAsDataURL file = OnLoad result" "CHR '','' \<notin> set result"
  shows "fileToImageInfo readAsDataURL file =
           Inr \<lparr>base64 = None, mimeType = fileType file, name = fileName file\<rparr>"
  using assms by (simp add: fileToImageInfo_def js_split_no_sep js_index_def)

lemma handleGenerate_present:
  assumes "personImage s \<noteq> None" "clothImage s \<noteq> None"
  shows "handleGenerate s settle =
     [SetIsLoading True, SetResultImage None, SetError None,
      GenerateCall (the (personImage s)) (the (clothImage s))]
     # (case settle of
          Fulfilled generatedImage \<Rightarrow>
            [[SetResultImage (Some generatedImage), SetIsLoading False]]
        | Rejected e \<Rightarrow>
            [[ConsoleError e, SetError (Some (failurePrefix @ errorMessage e)),
              SetIsLoading False]]
        | NeverSettles \<Rightarrow> [])"
  using assms by (simp add: handleGenerate_def)

lemma handleGenerate_absent:
  assumes "personImage s = None \<or> clothImage s = None"
  shows "handleGenerate s settle = [[SetError (Some validationMessage)]]"
  using assms by (auto simp add: handleGenerate_def)

subsection \<open>The timer\<close>

lemma interval_callback_running:
  assumes "M \<noteq> []" "effectDep s = isLoading s" "interval s = Some iv" "messageIndex iv = Some i"
  shows "interval_callback M s =
           s\<lparr>interval := Some (iv\<lparr>messageIndex := Some (Suc i mod length M)\<rparr>),
             loadingMessage := Some (M ! (Suc i mod length M))\<rparr>"
  using assms
  by (simp add: interval_callback_def flush_effects_def js_mod_def js_succ_def js_index_def)

lemma fire_running:
  assumes "M \<noteq> []" "effectDep s = isLoading s" "interval s = Some iv" "messageIndex iv = Some i"
  shows "fire M (Suc n) s =
           s\<lparr>interval := Some (iv\<lparr>messageIndex := Some ((i + Suc n) mod length M)\<rparr>),
             loadingMessage := Some (M ! ((i + Suc n) mod length M))\<rparr>"
  using assms
proof (induction n arbitrary: s iv i)
  case 0
  then show ?case by (simp add: interval_callback_running)
next
  case (Suc n)
  let ?j = "Suc i mod length M"
  let ?s = "s\<lparr>interval := Some (iv\<lparr>messageIndex := Some ?j\<rparr>),
              loadingMessage := Some (M ! ?j)\<rparr>"
  have step: "interval_callback M s = ?s"
    using Suc.prems by (rule interval_callback_running)
  have "(Suc i mod length M + Suc n) mod length M = (Suc i + Suc n) mod length M"
    by (rule mod_add_left_eq)
  then have idx: "(?j + Suc n) mod length M = (i + Suc (Suc n)) mod length M"
    by simp
  have "fire M (Suc (Suc n)) s = fire M (Suc n) ?s"
    by (simp add: step)
  also have "\<dots> =
      ?s\<lparr>interval := Some ((iv\<lparr>messageIndex := Some ?j\<rparr>)
                              \<lparr>messageIndex := Some ((?j + Suc n) mod length M)\<rparr>),
         loadingMessage := Some (M ! ((?j + Suc n) mod length M))\<rparr>"
    using Suc.prems by (intro Suc.IH) simp_all
  finally show ?case
    using idx by simp
qed

lemma elapse_idle: "interval s = None \<Longrightarrow> elapse M d s = s"
  by (simp add: elapse_def)

lemma elapse_running_state:
  assumes "M \<noteq> []" "effectDep s = isLoading s" "interval s = Some iv" "messageIndex iv = Some i"
  shows "elapse M d s =
           (if waited iv + d < 2500
            then s\<lparr>interval := Some (iv\<lparr>waited := (waited iv + d) mod 2500\<rparr>)\<rparr>
            else s\<lparr>interval :=
                     Some (iv\<lparr>messageIndex := Some ((i + (waited iv + d) div 2500) mod length M),
                              waited := (waited iv + d) mod 2500\<rparr>),
                   loadingMessage := Some (M ! ((i + (waited iv + d) div 2500) mod length M))\<rparr>)"
proof (cases "(waited iv + d) div 2500")
  case 0
  then have "waited iv + d < 2500" by (simp add: div_eq_0_iff)
  with 0 assms show ?thesis by (simp add: elapse_def)
next
  case (Suc n)
  then have "\<not> waited iv + d < 2500" by (auto simp: div_eq_0_iff)
  with Suc assms fire_running [OF assms, of n] show ?thesis
    by (simp add: elapse_def)
qed

lemma elapse_running:
  assumes "M \<noteq> []" "effectDep s = isLoading s" "interval s = Some iv" "messageIndex iv = Some i"
  shows "loadingMessage (elapse M d s) =
           (if waited iv + d < 2500 then loadingMessage s
            else Some (M ! ((i + (waited iv + d) div 2500) mod length M)))"
  using elapse_running_state [OF assms, of d] by simp

text \<open>
  A tick after \<^verbatim>\<open>isLoading\<close> has become false and before the cleanup has run: the
  callback still sets the next message, and the cleanup runs with the rendering of that
  update.
\<close>

lemma interval_callback_pending:
  assumes "M \<noteq> []" "\<not> isLoading s" "effectDep s" "interval s = Some iv"
    "messageIndex iv = Some i"
  shows "interval_callback M s =
           s\<lparr>interval := None, loadingMessage := Some (M ! (Suc i mod length M)),
             effectDep := False\<rparr>"
  using assms
  by (simp add: interval_callback_def flush_effects_def effect_body_def effect_cleanup_def
      js_mod_def js_succ_def js_index_def)

lemma fire_idle: "interval s = None \<Longrightarrow> fire M n s = s"
  by (induction n) (simp_all add: interval_callback_def)

lemma fire_pending:
  assumes "M \<noteq> []" "\<not> isLoading s" "effectDep s" "interval s = Some iv"
    "messageIndex iv = Some i"
  shows "fire M (Suc n) s =
           s\<lparr>interval := None, loadingMessage := Some (M ! (Suc i mod length M)),
             effectDep := False\<rparr>"
  using interval_callback_pending [OF assms] by (simp add: fire_idle)

lemma elapse_pending_state:
  assumes "M \<noteq> []" "\<not> isLoading s" "effectDep s" "interval s = Some iv"
    "messageIndex iv = Some i"
  shows "elapse M g s =
           (if waited iv + g < 2500
            then s\<lparr>interval := Some (iv\<lparr>waited := (waited iv + g) mod 2500\<rparr>)\<rparr>
            else s\<lparr>interval := None, loadingMessage := Some (M ! (Suc i mod length M)),
                   effectDep := False\<rparr>)"
proof (cases "(waited iv + g) div 2500")
  case 0
  then have "waited iv + g < 2500" by (simp add: div_eq_0_iff)
  with 0 assms show ?thesis by (simp add: elapse_def)
next
  case (Suc n)
  then have "\<not> waited iv + g < 2500" by (auto simp: div_eq_0_iff)
  with Suc assms fire_pending [OF assms, of n] show ?thesis
    by (simp add: elapse_def)
qed

text \<open>
  The start of a loading cycle: the effect sets a new timer with \<^verbatim>\<open>messageIndex = 0\<close>;
  nothing writes \<^verbatim>\<open>loadingMessage\<close>.
\<close>

lemma start_cycle:
  assumes "personImage s \<noteq> None" "clothImage s \<noteq> None" "\<not> isLoading s" "\<not> effectDep s"
    "interval s = None"
  shows "run M g (handleGenerate s NeverSettles) d s =
           s\<lparr>isLoading := True, resultImage := None, error := None,
             interval := Some \<lparr>messageIndex = Some 0, waited = 0\<rparr>, effectDep := True\<rparr>"
  using assms
  by (simp add: handleGenerate_present dispatch_def apply_effects_def elapse_def
      flush_effects_def effect_body_def effect_cleanup_def)

text \<open>The state of a loading cycle \<open>d\<close> time units after its timer was set.\<close>

lemma loading_state:
  assumes "M \<noteq> []" "isLoading s" "effectDep s"
    "interval s = Some \<lparr>messageIndex = Some 0, waited = 0\<rparr>"
  shows "isLoading (elapse M d s) \<and> effectDep (elapse M d s)
       \<and> interval (elapse M d s) =
           Some \<lparr>messageIndex = Some ((d div 2500) mod length M), waited = d mod 2500\<rparr>"
proof -
  have r: "effectDep s = isLoading s" using assms(2,3) by simp
  have i: "messageIndex \<lparr>messageIndex = Some 0, waited = 0\<rparr> = Some 0" by simp
  have z: "d < 2500 \<Longrightarrow> d div 2500 = 0" by simp
  show ?thesis
    using elapse_running_state [OF assms(1) r assms(4) i, of d] assms(2,3) z
    by (cases "d < 2500") simp_all
qed

text \<open>
  The end of a loading cycle: the handler sets \<^verbatim>\<open>isLoading\<close> to false, and the
  cleanup clears the timer \<open>g\<close> time units later, or with a tick that falls in between.
\<close>

lemma settle_cycle:
  assumes "M \<noteq> []" "isLoading s" "effectDep s" "interval s = Some iv" "messageIndex iv = Some i"
    and "settle \<noteq> NeverSettles"
    and "b = (case settle of
                Fulfilled generatedImage \<Rightarrow> [SetResultImage (Some generatedImage), SetIsLoading False]
              | Rejected e \<Rightarrow>
                  [ConsoleError e, SetError (Some (failurePrefix @ errorMessage e)), SetIsLoading False]
              | NeverSettles \<Rightarrow> [])"
  shows "interval (dispatch M g b s) = None
       \<and> loadingMessage (dispatch M g b s) =
           (if waited iv + g < 2500 then loadingMessage s else Some (M ! (Suc i mod length M)))"
proof -
  let ?s = "apply_effects b s"
  have pend: "\<not> isLoading ?s" "effectDep ?s" "interval ?s = Some iv"
    and msg: "loadingMessage ?s = loadingMessage s"
    using assms(2-4,6,7) by (cases settle; simp add: apply_effects_def)+
  show ?thesis
    using elapse_pending_state [OF assms(1) pend assms(5), of g] pend msg
    by (simp add: dispatch_def flush_effects_def effect_body_def effect_cleanup_def)
qed

section \<open>The outcome of a generation request\<close>

text \<open>
  Claim C1. When \<^verbatim>\<open>handleGenerate\<close> is called with both image slots present and the
  generation call is fulfilled with an image, the handler ends with \<^verbatim>\<open>resultImage\<close>
  that image and \<^verbatim>\<open>error\<close> absent. When the call is rejected, it ends with
  \<^verbatim>\<open>error\<close> the prefix \<^verbatim>\<open>"Failed to generate image. "\<close> followed by the message
  of the thrown \<^verbatim>\<open>Error\<close>, or by \<^verbatim>\<open>"An unknown error occurred."\<close> when the thrown
  value is not an \<^verbatim>\<open>Error\<close>, and with \<^verbatim>\<open>resultImage\<close> absent.
\<close>

theorem handleGenerate_outcome:
  assumes "personImage s \<noteq> None" and "clothImage s \<noteq> None"
  shows "resultImage (apply_effects (concat (handleGenerate s (Fulfilled img))) s) = Some img
       \<and> error (apply_effects (concat (handleGenerate s (Fulfilled img))) s) = None
       \<and> error (apply_effects (concat (handleGenerate s (Rejected e))) s) =
           Some (''Failed to generate image. '' @
                 (case e of ErrorInstance m \<Rightarrow> m
                  | OtherValue v \<Rightarrow> ''An unknown error occurred.''))
       \<and> resultImage (apply_effects (concat (handleGenerate s (Rejected e))) s) = None"
  using assms
  by (cases e) (simp_all add: handleGenerate_present apply_effects_def failurePrefix_def)

theorem handleGenerate_outcome_witness:
  "personImage ready \<noteq> None \<and> clothImage ready \<noteq> None
   \<and> resultImage (apply_effects
         (concat (handleGenerate ready (Fulfilled ''data:image/png;base64,XYZ''))) ready)
       = Some ''data:image/png;base64,XYZ''
   \<and> error (apply_effects
         (concat (handleGenerate ready (Fulfilled ''data:image/png;base64,XYZ''))) ready) = None
   \<and> error (apply_effects
         (concat (handleGenerate ready (Rejected (ErrorInstance ''quota exceeded'')))) ready)
       = Some ''Failed to generate image. quota exceeded''
   \<and> resultImage (apply_effects
         (concat (handleGenerate ready (Rejected (ErrorInstance ''quota exceeded'')))) ready) = None"
proof -
  have p: "personImage ready \<noteq> None" and c: "clothImage ready \<noteq> None"
    by (simp_all add: ready_def initial_def)
  show ?thesis
    using p c handleGenerate_outcome [OF p c, of "''data:image/png;base64,XYZ''"
        "ErrorInstance ''quota exceeded''"]
    by simp
qed

text \<open>
  Claim C2. When \<^verbatim>\<open>handleGenerate\<close> is called with the person image or the cloth
  image absent, the generation service is not called, \<^verbatim>\<open>error\<close> becomes
  \<^verbatim>\<open>"Please upload both your photo and a clothing item photo."\<close>, and
  \<^verbatim>\<open>setIsLoading(true)\<close> is not called: \<^verbatim>\<open>isLoading\<close> has its old value before and
  after the one effect of the handler.
\<close>

theorem handleGenerate_guard:
  assumes "personImage s = None \<or> clothImage s = None"
  shows "\<not> list_ex is_GenerateCall (concat (handleGenerate s settle))
       \<and> error (apply_effects (concat (handleGenerate s settle)) s)
           = Some ''Please upload both your photo and a clothing item photo.''
       \<and> SetIsLoading True \<notin> set (concat (handleGenerate s settle))
       \<and> map isLoading (states (concat (handleGenerate s settle)) s) = [isLoading s, isLoading s]"
  using assms by (simp add: handleGenerate_absent apply_effects_def validationMessage_def)

theorem handleGenerate_guard_witness:
  "(personImage afterResult = None \<or> clothImage afterResult = None)
   \<and> \<not> list_ex is_GenerateCall (concat (handleGenerate afterResult NeverSettles))
   \<and> error (apply_effects (concat (handleGenerate afterResult NeverSettles)) afterResult)
       = Some ''Please upload both your photo and a clothing item photo.''
   \<and> SetIsLoading True \<notin> set (concat (handleGenerate afterResult NeverSettles))
   \<and> map isLoading (states (concat (handleGenerate afterResult NeverSettles)) afterResult)
       = [False, False]"
proof -
  have h: "personImage afterResult = None \<or> clothImage afterResult = None"
    by (simp add: afterResult_def initial_def)
  have l: "isLoading afterResult = False"
    by (simp add: afterResult_def initial_def)
  show ?thesis
    using h l handleGenerate_guard [OF h, of NeverSettles] by simp
qed

text \<open>
  Claim C3. When \<^verbatim>\<open>handleGenerate\<close> is called with both image slots present, the
  effects that run before the \<^verbatim>\<open>await\<close> are the same whatever the generation call
  does later, and after them \<^verbatim>\<open>resultImage\<close> and \<^verbatim>\<open>error\<close> are absent; the effects
  of the outcome are applied to that state.
\<close>

theorem handleGenerate_clears_first:
  assumes "personImage s \<noteq> None" and "clothImage s \<noteq> None"
  shows "hd (handleGenerate s settle) = hd (handleGenerate s NeverSettles)
       \<and> resultImage (apply_effects (hd (handleGenerate s settle)) s) = None
       \<and> error (apply_effects (hd (handleGenerate s settle)) s) = None
       \<and> apply_effects (concat (handleGenerate s settle)) s
           = apply_effects (concat (tl (handleGenerate s settle)))
               (apply_effects (hd (handleGenerate s settle)) s)"
  using assms by (simp add: handleGenerate_present apply_effects_def)

theorem handleGenerate_clears_first_witness:
  "personImage staleReady \<noteq> None \<and> clothImage staleReady \<noteq> None
   \<and> resultImage staleReady = Some ''data:image/png;base64,OLD''
   \<and> error staleReady = Some ''Failed to generate image. quota exceeded''
   \<and> resultImage (apply_effects
         (hd (handleGenerate staleReady (Fulfilled ''data:image/png;base64,NEW''))) staleReady) = None
   \<and> error (apply_effects
         (hd (handleGenerate staleReady (Fulfilled ''data:image/png;base64,NEW''))) staleReady) = None"
proof -
  have p: "personImage staleReady \<noteq> None" and c: "clothImage staleReady \<noteq> None"
    and r: "resultImage staleReady = Some ''data:image/png;base64,OLD''"
    and e: "error staleReady = Some ''Failed to generate image. quota exceeded''"
    by (simp_all add: staleReady_def ready_def initial_def)
  show ?thesis
    using p c r e
      handleGenerate_clears_first [OF p c, of "Fulfilled ''data:image/png;base64,NEW''"]
    by blast
qed

text \<open>
  Claim C4, as stated: no path leaves \<^verbatim>\<open>isLoading\<close> true for ever. It fails: from
  \<open>ready\<close>, when the promise of the generation call stays pending, the handler never
  reaches its \<^verbatim>\<open>finally\<close>, and \<^verbatim>\<open>isLoading\<close> goes from false to true and stays
  true.
\<close>

theorem isLoading_pending_counterexample:
  "isLoading (apply_effects (concat (handleGenerate ready NeverSettles)) ready)
   \<and> remdups_adj (map isLoading (states (concat (handleGenerate ready NeverSettles)) ready))
       = [False, True]"
  by (simp add: handleGenerate_def ready_def initial_def apply_effects_def)

text \<open>
  Claim C4, amended. When \<^verbatim>\<open>handleGenerate\<close> is called with both image slots present
  and the generation call settles, fulfilled or rejected, the handler ends with
  \<^verbatim>\<open>isLoading\<close> false, and over the states of the run \<^verbatim>\<open>isLoading\<close> changes from
  false to true once and from true to false once when it was false at the call (from true
  to false once when it was already true). When the call never settles, the handler has
  no timeout: \<^verbatim>\<open>isLoading\<close> becomes true and stays true.
\<close>

theorem handleGenerate_isLoading_cycle:
  assumes "personImage s \<noteq> None" and "clothImage s \<noteq> None"
  shows "isLoading (apply_effects (concat (handleGenerate s (Fulfilled img))) s) = False
       \<and> remdups_adj (map isLoading (states (concat (handleGenerate s (Fulfilled img))) s))
           = (if isLoading s then [True, False] else [False, True, False])
       \<and> isLoading (apply_effects (concat (handleGenerate s (Rejected e))) s) = False
       \<and> remdups_adj (map isLoading (states (concat (handleGenerate s (Rejected e))) s))
           = (if isLoading s then [True, False] else [False, True, False])
       \<and> isLoading (apply_effects (concat (handleGenerate s NeverSettles)) s) = True
       \<and> remdups_adj (map isLoading (states (concat (handleGenerate s NeverSettles)) s))
           = (if isLoading s then [True] else [False, True])"
  using assms by (simp add: handleGenerate_present apply_effects_def)

theorem handleGenerate_isLoading_cycle_witness:
  "personImage ready \<noteq> None \<and> clothImage ready \<noteq> None
   \<and> isLoading (apply_effects
         (concat (handleGenerate ready (Fulfilled ''data:image/png;base64,XYZ''))) ready) = False
   \<and> remdups_adj (map isLoading
         (states (concat (handleGenerate ready (Fulfilled ''data:image/png;base64,XYZ''))) ready))
       = [False, True, False]
   \<and> isLoading (apply_effects
         (concat (handleGenerate ready (Rejected (OtherValue ''timeout'')))) ready) = False
   \<and> remdups_adj (map isLoading
         (states (concat (handleGenerate ready (Rejected (OtherValue ''timeout'')))) ready))
       = [False, True, False]"
proof -
  have p: "personImage ready \<noteq> None" and c: "clothImage ready \<noteq> None"
    and l: "isLoading ready = False"
    by (simp_all add: ready_def initial_def)
  show ?thesis
    using p c l
      handleGenerate_isLoading_cycle [OF p c, of "''data:image/png;base64,XYZ''"
        "OtherValue ''timeout''"]
    by simp
qed

section \<open>The encoder and the upload handlers\<close>

text \<open>
  Claim C7. When the reader loads the file, \<^verbatim>\<open>fileToImageInfo\<close> resolves with an
  \<^verbatim>\<open>ImageInfo\<close> whose \<^verbatim>\<open>mimeType\<close> is the type of the file and whose \<^verbatim>\<open>name\<close>
  is its name; a \<^verbatim>\<open>base64\<close> it carries contains no comma, and when the result read
  is a header without comma, a comma and a payload without comma, \<^verbatim>\<open>base64\<close> is that
  payload.
\<close>

theorem fileToImageInfo_payload:
  assumes "readAsDataURL file = OnLoad result"
  shows "\<exists>info. fileToImageInfo readAsDataURL file = Inr info
           \<and> mimeType info = fileType file \<and> name info = fileName file
           \<and> (\<forall>p. base64 info = Some p \<longrightarrow> CHR '','' \<notin> set p)
           \<and> (\<forall>hdr payload.
                 result = hdr @ CHR '','' # payload
                 \<and> CHR '','' \<notin> set hdr \<and> CHR '','' \<notin> set payload
                 \<longrightarrow> base64 info = Some payload)"
proof -
  let ?info = "\<lparr>base64 = js_index (js_split CHR '','' result) (Some 1),
               mimeType = fileType file, name = fileName file\<rparr>"
  have eq: "fileToImageInfo readAsDataURL file = Inr ?info"
    using assms by (simp add: fileToImageInfo_def)
  have nosep: "CHR '','' \<notin> set p" if "base64 ?info = Some p" for p
    using that js_index_mem [of "js_split CHR '','' result" "Some 1" p] js_split_pieces
    by auto
  have strip: "base64 ?info = Some payload"
    if "result = hdr @ CHR '','' # payload" "CHR '','' \<notin> set hdr" "CHR '','' \<notin> set payload"
    for hdr payload
    using that js_index_second [of hdr payload]
    by (simp add: js_split_header js_split_no_sep)
  show ?thesis
    using eq nosep strip by auto
qed

theorem fileToImageInfo_payload_witness:
  "loadingReader exampleFile = OnLoad ''data:image/png;base64,QUJD''
   \<and> fileToImageInfo loadingReader exampleFile
       = Inr \<lparr>base64 = Some ''QUJD'', mimeType = ''image/png'', name = ''me.png''\<rparr>"
proof -
  have r: "loadingReader exampleFile = OnLoad ''data:image/png;base64,QUJD''"
    by (simp add: loadingReader_def)
  obtain info where info: "fileToImageInfo loadingReader exampleFile = Inr info"
      "mimeType info = fileType exampleFile" "name info = fileName exampleFile"
      "\<forall>hdr payload. ''data:image/png;base64,QUJD'' = hdr @ CHR '','' # payload
          \<and> CHR '','' \<notin> set hdr \<and> CHR '','' \<notin> set payload \<longrightarrow> base64 info = Some payload"
    using fileToImageInfo_payload [of loadingReader exampleFile, OF r]
    by blast
  have "''data:image/png;base64,QUJD'' = ''data:image/png;base64'' @ CHR '','' # ''QUJD''
      \<and> CHR '','' \<notin> set ''data:image/png;base64'' \<and> CHR '','' \<notin> set ''QUJD''"
    by simp
  with info(4) have "base64 info = Some ''QUJD''"
    by blast
  with info(1-3) r show ?thesis
    by (simp add: exampleFile_def)
qed

text \<open>
  Claim C9. When the read of an uploaded file fails, \<^verbatim>\<open>fileToImageInfo\<close> rejects with
  the event of the reader and builds no \<^verbatim>\<open>ImageInfo\<close>; each upload handler then calls
  no setter, so that every slot keeps its value, and its own promise is rejected with the
  same event.
\<close>

theorem upload_read_failure:
  assumes "readAsDataURL f = OnError ev"
  shows "fileToImageInfo readAsDataURL f = Inl ev
       \<and> handlePersonImageUpload readAsDataURL (Some f) = ([], Inl ev)
       \<and> handleClothImageUpload readAsDataURL (Some f) = ([], Inl ev)
       \<and> apply_effects (fst (handlePersonImageUpload readAsDataURL (Some f))) s = s
       \<and> apply_effects (fst (handleClothImageUpload readAsDataURL (Some f))) s = s"
  using assms
  by (simp add: fileToImageInfo_def handlePersonImageUpload_def handleClothImageUpload_def
      apply_effects_def)

theorem upload_read_failure_witness:
  "failingReader exampleFile = OnError (ProgressEvent ''NotReadableError'')
   \<and> fileToImageInfo failingReader exampleFile = Inl (ProgressEvent ''NotReadableError'')
   \<and> handlePersonImageUpload failingReader (Some exampleFile)
       = ([], Inl (ProgressEvent ''NotReadableError''))
   \<and> handleClothImageUpload failingReader (Some exampleFile)
       = ([], Inl (ProgressEvent ''NotReadableError''))
   \<and> apply_effects (fst (handlePersonImageUpload failingReader (Some exampleFile))) ready = ready
   \<and> apply_effects (fst (handleClothImageUpload failingReader (Some exampleFile))) ready = ready"
proof -
  have r: "failingReader exampleFile = OnError (ProgressEvent ''NotReadableError'')"
    by (simp add: failingReader_def)
  show ?thesis
    using r upload_read_failure [of failingReader exampleFile, OF r, of ready] by blast
qed

section \<open>The frame of a refused request\<close>

text \<open>
  Claim C10. When \<^verbatim>\<open>handleGenerate\<close> is called with the person image or the cloth
  image absent, the state at the end is the state at the call with only \<^verbatim>\<open>error\<close>
  replaced: a \<^verbatim>\<open>resultImage\<close> of an earlier request stays, and so does
  \<^verbatim>\<open>isLoading\<close>.
\<close>

theorem handleGenerate_guard_frame:
  assumes "personImage s = None \<or> clothImage s = None"
  shows "apply_effects (concat (handleGenerate s settle)) s
           = s\<lparr>error := Some ''Please upload both your photo and a clothing item photo.''\<rparr>"
  using assms by (simp add: handleGenerate_absent apply_effects_def validationMessage_def)

theorem handleGenerate_guard_frame_witness:
  "(personImage afterResult = None \<or> clothImage afterResult = None)
   \<and> resultImage (apply_effects (concat (handleGenerate afterResult NeverSettles)) afterResult)
       = Some ''data:image/png;base64,XYZ''
   \<and> error (apply_effects (concat (handleGenerate afterResult NeverSettles)) afterResult)
       = Some ''Please upload both your photo and a clothing item photo.''
   \<and> isLoading (apply_effects (concat (handleGenerate afterResult NeverSettles)) afterResult)
       = False"
proof -
  have h: "personImage afterResult = None \<or> clothImage afterResult = None"
    by (simp add: afterResult_def initial_def)
  show ?thesis
    using h handleGenerate_guard_frame [OF h, of NeverSettles]
    by (simp add: afterResult_def initial_def)
qed

section \<open>The error and the end of loading\<close>

text \<open>
  Claim C6, as stated: the error of a failed request is set only once \<^verbatim>\<open>isLoading\<close>
  is false again. It fails: from \<open>ready\<close>, with the call rejected with
  \<^verbatim>\<open>new Error("quota exceeded")\<close>, the sixth effect of the handler is the
  \<^verbatim>\<open>setError\<close> of the \<^verbatim>\<open>catch\<close> block, and in the state after it \<^verbatim>\<open>isLoading\<close>
  is still true.
\<close>

theorem error_set_while_loading_counterexample:
  "concat (handleGenerate ready (Rejected (ErrorInstance ''quota exceeded''))) ! 5
      = SetError (Some ''Failed to generate image. quota exceeded'')
   \<and> isLoading
        (states (concat (handleGenerate ready (Rejected (ErrorInstance ''quota exceeded'')))) ready ! 6)
   \<and> error
        (states (concat (handleGenerate ready (Rejected (ErrorInstance ''quota exceeded'')))) ready ! 6)
      = Some ''Failed to generate image. quota exceeded''"
  by (simp add: handleGenerate_def ready_def initial_def failurePrefix_def)

text \<open>
  Claim C6, amended. When \<^verbatim>\<open>handleGenerate\<close> is called with both image slots
  present, at the points where the handler gives up control (its \<^verbatim>\<open>await\<close> and its
  end) \<^verbatim>\<open>isLoading\<close> and a present \<^verbatim>\<open>error\<close> never hold together. When the call
  is rejected, \<^verbatim>\<open>error\<close> is absent from the third effect on until the
  \<^verbatim>\<open>catch\<close> block sets it, while \<^verbatim>\<open>isLoading\<close> is still true, and the next
  effect, in \<^verbatim>\<open>finally\<close>, sets \<^verbatim>\<open>isLoading\<close> to false.
\<close>

theorem handleGenerate_error_with_loading_end:
  assumes "personImage s \<noteq> None" and "clothImage s \<noteq> None"
  shows "list_all (\<lambda>st. \<not> (isLoading st \<and> error st \<noteq> None)) (commits (handleGenerate s settle) s)
       \<and> map (\<lambda>st. (isLoading st, error st)) (states (concat (handleGenerate s (Rejected e))) s)
           = [(isLoading s, error s), (True, error s), (True, error s), (True, None), (True, None),
              (True, None), (True, Some (''Failed to generate image. '' @ errorMessage e)),
              (False, Some (''Failed to generate image. '' @ errorMessage e))]"
  using assms
  by (cases settle) (simp_all add: handleGenerate_present failurePrefix_def apply_effects_def)

theorem handleGenerate_error_with_loading_end_witness:
  "personImage ready \<noteq> None \<and> clothImage ready \<noteq> None
   \<and> list_all (\<lambda>st. \<not> (isLoading st \<and> error st \<noteq> None))
        (commits (handleGenerate ready (Rejected (ErrorInstance ''quota exceeded''))) ready)
   \<and> map (\<lambda>st. (isLoading st, error st))
         (states (concat (handleGenerate ready (Rejected (ErrorInstance ''quota exceeded'')))) ready)
       = [(False, None), (True, None), (True, None), (True, None), (True, None), (True, None),
          (True, Some ''Failed to generate image. quota exceeded''),
          (False, Some ''Failed to generate image. quota exceeded'')]"
proof -
  have p: "personImage ready \<noteq> None" and c: "clothImage ready \<noteq> None"
    and l: "isLoading ready = False" and e: "error ready = None"
    by (simp_all add: ready_def initial_def)
  show ?thesis
    using p c l e
      handleGenerate_error_with_loading_end [OF p c,
        of "Rejected (ErrorInstance ''quota exceeded'')" "ErrorInstance ''quota exceeded''"]
    by simp
qed

section \<open>The loading message\<close>

text \<open>
  Claim C5, at a second loading cycle. The first request from \<open>ready\<close> takes 2500 time
  units, so the timer fires once and shows the second message; the request ends and
  \<^verbatim>\<open>isLoading\<close> is false. A second request then makes \<^verbatim>\<open>isLoading\<close> true again,
  and \<^verbatim>\<open>loadingMessage\<close> is still the second message, and stays so until the timer
  fires, while the first element of \<^verbatim>\<open>LOADING_MESSAGES\<close> is another string.
\<close>

theorem second_cycle_stale_message:
  "isLoading afterFirstCycle = False
   \<and> isLoading (run exampleMessages 0 (handleGenerate afterFirstCycle NeverSettles) 0 afterFirstCycle)
      = True
   \<and> loadingMessage
        (run exampleMessages 0 (handleGenerate afterFirstCycle NeverSettles) 0 afterFirstCycle)
      = Some ''m1''
   \<and> loadingMessage
        (elapse exampleMessages 2499
          (run exampleMessages 0 (handleGenerate afterFirstCycle NeverSettles) 0 afterFirstCycle))
      = Some ''m1''
   \<and> js_index exampleMessages (Some 0) = Some ''m0''"
  by (simp add: afterFirstCycle_def handleGenerate_def ready_def initial_def exampleMessages_def
      dispatch_def apply_effects_def flush_effects_def effect_body_def effect_cleanup_def
      elapse_def interval_callback_def js_mod_def js_succ_def js_index_def)

text \<open>
  Claim C8, as stated: once \<^verbatim>\<open>isLoading\<close> is false the message no longer advances.
  It fails: a request from \<open>ready\<close> is fulfilled 2499 time units after the timer was set,
  and the handler sets \<^verbatim>\<open>isLoading\<close> to false while the first message is shown and
  the timer is still set. The cleanup of the effect runs one time unit later; the timer
  fires first and shows the second message, with \<^verbatim>\<open>isLoading\<close> false. That is the state
  in which the request ends.
\<close>

theorem advance_after_loading_counterexample:
  "isLoading settledBeforeCleanup = False
   \<and> loadingMessage settledBeforeCleanup = Some ''m0''
   \<and> interval settledBeforeCleanup = Some \<lparr>messageIndex = Some 0, waited = 2499\<rparr>
   \<and> isLoading (elapse exampleMessages 1 settledBeforeCleanup) = False
   \<and> loadingMessage (elapse exampleMessages 1 settledBeforeCleanup) = Some ''m1''
   \<and> run exampleMessages 1 (handleGenerate ready (Fulfilled ''data:image/png;base64,XYZ'')) 2499 ready
      = flush_effects (elapse exampleMessages 1 settledBeforeCleanup)"
  by (simp add: settledBeforeCleanup_def handleGenerate_def ready_def initial_def
      exampleMessages_def dispatch_def apply_effects_def flush_effects_def effect_body_def
      effect_cleanup_def elapse_def interval_callback_def js_mod_def js_succ_def js_index_def)

text \<open>
  Claim C8, amended. A request with both image slots present starts from a state that is
  not loading and has no timer, with a non-empty \<^verbatim>\<open>LOADING_MESSAGES\<close>; the effect runs
  \<open>g\<close> time units after each commit. While the call is pending, from the first tick on,
  \<open>t\<close> time units after the timer was set \<^verbatim>\<open>loadingMessage\<close> is the element of
  \<^verbatim>\<open>LOADING_MESSAGES\<close> at index \<open>t div 2500\<close> modulo the length: one step further at
  every tick, 2500 units apart, from the last element back to the first. When the call
  has settled, \<open>d\<close> units after the timer was set, the request ends with no timer set, and
  from then on no passing of time changes the state. The message it ends with is the one
  shown when the call settled, unless a tick fell in the \<open>g\<close> units between the update
  of \<^verbatim>\<open>isLoading\<close> to false and the cleanup: that tick still advanced the message by
  one step.
\<close>

theorem loadingMessage_cycle:
  assumes "personImage s \<noteq> None" and "clothImage s \<noteq> None"
    and "\<not> isLoading s" and "\<not> effectDep s" and "interval s = None" and "M \<noteq> []"
  shows "(2500 \<le> t \<longrightarrow>
            loadingMessage (elapse M t (run M g (handleGenerate s NeverSettles) 0 s)) =
              Some (M ! ((t div 2500) mod length M)))
       \<and> (settle \<noteq> NeverSettles \<longrightarrow>
            interval (run M g (handleGenerate s settle) d s) = None
          \<and> elapse M t (run M g (handleGenerate s settle) d s)
              = run M g (handleGenerate s settle) d s
          \<and> loadingMessage (run M g (handleGenerate s settle) d s) =
              (if d mod 2500 + g < 2500
               then loadingMessage (elapse M d (run M g (handleGenerate s NeverSettles) 0 s))
               else Some (M ! ((d div 2500 + 1) mod length M))))"
proof -
  let ?iv = "\<lparr>messageIndex = Some 0, waited = 0\<rparr>"
  let ?s1 = "s\<lparr>isLoading := True, resultImage := None, error := None,
               interval := Some ?iv, effectDep := True\<rparr>"
  have start: "run M g (handleGenerate s NeverSettles) 0 s = ?s1"
    using assms(1-5) by (rule start_cycle)
  have running: "effectDep ?s1 = isLoading ?s1" "interval ?s1 = Some ?iv"
      "messageIndex ?iv = Some 0"
    by simp_all
  have during: "loadingMessage (elapse M t ?s1) = Some (M ! ((t div 2500) mod length M))"
    if "2500 \<le> t"
    using that elapse_running [OF assms(6) running, of t] by simp
  have after: "interval (run M g (handleGenerate s settle) d s) = None
          \<and> elapse M t (run M g (handleGenerate s settle) d s)
              = run M g (handleGenerate s settle) d s
          \<and> loadingMessage (run M g (handleGenerate s settle) d s) =
              (if d mod 2500 + g < 2500 then loadingMessage (elapse M d ?s1)
               else Some (M ! ((d div 2500 + 1) mod length M)))"
    if settled: "settle \<noteq> NeverSettles"
  proof -
    let ?b = "case settle of
                Fulfilled generatedImage \<Rightarrow>
                  [SetResultImage (Some generatedImage), SetIsLoading False]
              | Rejected e \<Rightarrow>
                  [ConsoleError e, SetError (Some (failurePrefix @ errorMessage e)),
                   SetIsLoading False]
              | NeverSettles \<Rightarrow> []"
    let ?iv2 = "\<lparr>messageIndex = Some ((d div 2500) mod length M), waited = d mod 2500\<rparr>"
    have first: "dispatch M g (hd (handleGenerate s NeverSettles)) s = ?s1"
      using start assms(1,2) by (simp add: handleGenerate_present)
    have whole: "run M g (handleGenerate s settle) d s = dispatch M g ?b (elapse M d ?s1)"
      using settled first assms(1,2) by (cases settle) (simp_all add: handleGenerate_present)
    have loading: "isLoading (elapse M d ?s1)" "effectDep (elapse M d ?s1)"
        "interval (elapse M d ?s1) = Some ?iv2"
      using loading_state [OF assms(6), of ?s1 d] by simp_all
    have idx: "messageIndex ?iv2 = Some ((d div 2500) mod length M)"
      by simp
    have step: "Suc ((d div 2500) mod length M) mod length M = (d div 2500 + 1) mod length M"
      by (simp add: mod_Suc_eq)
    have fin: "interval (dispatch M g ?b (elapse M d ?s1)) = None
        \<and> loadingMessage (dispatch M g ?b (elapse M d ?s1)) =
            (if d mod 2500 + g < 2500 then loadingMessage (elapse M d ?s1)
             else Some (M ! ((d div 2500 + 1) mod length M)))"
      using settle_cycle [OF assms(6) loading idx settled refl, of g] step by simp
    then show ?thesis
      by (simp add: whole elapse_idle)
  qed
  show ?thesis
    using during after by (simp add: start)
qed

theorem loadingMessage_cycle_witness:
  "personImage ready \<noteq> None \<and> clothImage ready \<noteq> None
   \<and> \<not> isLoading ready \<and> \<not> effectDep ready \<and> interval ready = None \<and> exampleMessages \<noteq> []
   \<and> (2500::nat) \<le> 5000 \<and> (2500::nat) \<le> 7500
   \<and> Fulfilled ''data:image/png;base64,XYZ'' \<noteq> NeverSettles
   \<and> loadingMessage
        (elapse exampleMessages 5000 (run exampleMessages 1 (handleGenerate ready NeverSettles) 0 ready))
       = Some ''m2''
   \<and> loadingMessage
        (elapse exampleMessages 7500 (run exampleMessages 1 (handleGenerate ready NeverSettles) 0 ready))
       = Some ''m0''
   \<and> interval
        (run exampleMessages 1 (handleGenerate ready (Fulfilled ''data:image/png;base64,XYZ'')) 5000 ready)
       = None
   \<and> elapse exampleMessages 7500
        (run exampleMessages 1 (handleGenerate ready (Fulfilled ''data:image/png;base64,XYZ'')) 5000 ready)
       = run exampleMessages 1 (handleGenerate ready (Fulfilled ''data:image/png;base64,XYZ'')) 5000 ready
   \<and> loadingMessage
        (run exampleMessages 1 (handleGenerate ready (Fulfilled ''data:image/png;base64,XYZ'')) 5000 ready)
       = Some ''m2''
   \<and> loadingMessage
        (run exampleMessages 1 (handleGenerate ready (Fulfilled ''data:image/png;base64,XYZ'')) 2499 ready)
       = Some ''m1''"
proof -
  have p: "personImage ready \<noteq> None" and c: "clothImage ready \<noteq> None"
    and l: "\<not> isLoading ready" and d: "\<not> effectDep ready" and i: "interval ready = None"
    and m: "exampleMessages \<noteq> []"
    by (simp_all add: ready_def initial_def exampleMessages_def)
  have f: "Fulfilled ''data:image/png;base64,XYZ'' \<noteq> NeverSettles"
    by simp
  have len: "length exampleMessages = 3" and m2: "exampleMessages ! 2 = ''m2''"
    and m1: "exampleMessages ! 1 = ''m1''" and m0: "exampleMessages ! 0 = ''m0''"
    by (simp_all add: exampleMessages_def)
  note cyc = loadingMessage_cycle [OF p c l d i m]
  show ?thesis
    using p c l d i m f len m2 m1 m0
      cyc [of 5000 1 "Fulfilled ''data:image/png;base64,XYZ''" 5000]
      cyc [of 7500 1 "Fulfilled ''data:image/png;base64,XYZ''" 5000]
      cyc [of 7500 1 "Fulfilled ''data:image/png;base64,XYZ''" 2499]
    by simp
qed

end
